theory Spec2Isabelle
  imports Main
begin

section \<open>The values handed to the constructs\<close>

text \<open>
  The stack of \<^verbatim>\<open>lib/http-api-private-integration-ecs-stack.ts\<close> is one class whose
  constructor runs five private methods in a fixed order. Each method creates constructs
  of the infrastructure library under an identifier and with literal properties. The
  model keeps the tree of constructs as a store from identifiers to constructs, in
  creation order, and the three fields of the class as optional handles into that store.
\<close>

type_synonym construct_id = string

datatype SubnetType = PRIVATE_ISOLATED | PRIVATE_WITH_EGRESS | PUBLIC

datatype Subnet =
  Subnet (subnetType: SubnetType) (availabilityZone: string) (ipv4CidrBlock: string)

text \<open>A subnet selection \<^verbatim>\<open>{subnetType: T}\<close>; the empty selection \<^verbatim>\<open>{}\<close> has no type.\<close>

datatype SubnetSelection = SubnetSelection (selectedType: "SubnetType option")

datatype Peer = anyIpv4 | ipv4 string

datatype Port = tcp nat

datatype Protocol = TCP | UDP

datatype ApplicationProtocol = HTTP | HTTPS

datatype HttpMethod = ANY | DELETE | GET | HEAD | OPTIONS | PATCH | POST | PUT

datatype ListenerAction =
    fixedResponse nat string  \<comment> \<open>status code, message body\<close>
  | forward construct_id      \<comment> \<open>the target group\<close>

datatype ListenerCondition = pathPatterns "string list"

datatype LogDriver = awsLogs string  \<comment> \<open>streamPrefix\<close>

datatype ContainerImage = fromEcrRepository construct_id

datatype EndpointService =
    InterfaceVpcEndpointService string nat  \<comment> \<open>service name, port\<close>
  | CLOUDWATCH_LOGS
  | S3

datatype ContainerDefinition =
  ContainerDefinition
    (containerName: string)
    (image: ContainerImage)
    (logging: LogDriver)
    (portMappings: "(nat \<times> Protocol) list")

text \<open>
  A rule of the listener, with the four components of the specification's routing rule:
  priority, path patterns, target group and the health-check path of that group.
\<close>

datatype ListenerRule =
  ListenerRule
    (priority: nat)
    (rulePatterns: "string list")
    (target: construct_id)
    (healthCheckPath: string)

text \<open>
  The second argument of \<^verbatim>\<open>ListenerConfig.applicationListener\<close>, and one argument of
  \<^verbatim>\<open>registerLoadBalancerTargets\<close>.
\<close>

datatype AddApplicationTargetsProps =
  AddApplicationTargetsProps
    (targetsProtocol: ApplicationProtocol)
    (targetsPriority: nat)
    (targetsHealthCheck: string)
    (targetsConditions: "ListenerCondition list")

datatype ListenerConfig = applicationListener construct_id AddApplicationTargetsProps

datatype EcsTarget =
  EcsTarget
    (targetContainerName: string)
    (newTargetGroupId: construct_id)
    (targetListener: ListenerConfig)

section \<open>Constructs and the stack\<close>

datatype Construct =
    Vpc nat nat string "Subnet list"
      \<comment> \<open>maxAzs, natGateways; the address block and the subnets the construct lays out\<close>
  | SecurityGroup construct_id "(Peer \<times> Port) list"
      \<comment> \<open>vpc; the ingress rules added so far\<close>
  | ApplicationLoadBalancer construct_id bool SubnetSelection construct_id
      \<comment> \<open>vpc, internetFacing, vpcSubnets, securityGroup\<close>
  | ApplicationListener construct_id nat "ListenerAction option" "ListenerRule list"
      \<comment> \<open>load balancer, port; the default action and the rules added so far\<close>
  | ApplicationTargetGroup ApplicationProtocol string "(construct_id \<times> string) list"
      \<comment> \<open>protocol, health-check path, targets (service, container name)\<close>
  | InterfaceVpcEndpoint EndpointService SubnetSelection "construct_id list" bool
      \<comment> \<open>service, subnets, securityGroups, privateDnsEnabled\<close>
  | GatewayVpcEndpoint EndpointService "SubnetSelection list"
      \<comment> \<open>service, subnets\<close>
  | Cluster string construct_id
      \<comment> \<open>clusterName, vpc\<close>
  | FargateTaskDefinition nat nat "ContainerDefinition list"
      \<comment> \<open>memoryLimitMiB, cpu; the containers added so far\<close>
  | Repository string
      \<comment> \<open>repositoryName\<close>
  | FargateService construct_id construct_id nat bool
      \<comment> \<open>cluster, taskDefinition, desiredCount, assignPublicIp\<close>
  | VpcLink construct_id string "Subnet list"
      \<comment> \<open>vpc, vpcLinkName, subnets\<close>
  | HttpApi string
      \<comment> \<open>apiName\<close>
  | HttpAlbIntegration construct_id HttpMethod construct_id
      \<comment> \<open>listener, method, vpcLink\<close>
  | HttpRoute construct_id construct_id "string \<times> HttpMethod"
      \<comment> \<open>httpApi, integration, routeKey (path, method)\<close>

text \<open>
  The three private fields of the class are unset until a method assigns them. The
  journal lists, in order, the identifier of every construct created and of every action
  added.
\<close>

record Stack =
  vpc :: "construct_id option"
  internalAlb :: "construct_id option"
  internalAlbListener :: "construct_id option"
  constructs :: "(construct_id \<times> Construct) list"
  journal :: "construct_id list"

datatype error =
    UnsetField string        \<comment> \<open>a field of the class read before it was assigned\<close>
  | NoSuchConstruct string   \<comment> \<open>a handle that names no construct of the expected class\<close>
  | DuplicatePriority nat    \<comment> \<open>a rule priority already taken on the listener\<close>
  | NoSubnets SubnetType     \<comment> \<open>a subnet selection that finds no subnet of its group\<close>

definition andThen :: "error + 'a \<Rightarrow> ('a \<Rightarrow> error + 'b) \<Rightarrow> error + 'b" where
  "andThen m f = (case m of Inl e \<Rightarrow> Inl e | Inr x \<Rightarrow> f x)"

definition emptyStack :: Stack where
  "emptyStack =
     \<lparr>vpc = None, internalAlb = None, internalAlbListener = None,
      constructs = [], journal = []\<rparr>"

definition lookup :: "Stack \<Rightarrow> construct_id \<Rightarrow> Construct option" where
  "lookup s i = map_of (constructs s) i"

definition newConstruct :: "construct_id \<Rightarrow> Construct \<Rightarrow> Stack \<Rightarrow> Stack" where
  "newConstruct i c s =
     s\<lparr>constructs := constructs s @ [(i, c)], journal := journal s @ [i]\<rparr>"

definition modify :: "construct_id \<Rightarrow> (Construct \<Rightarrow> Construct) \<Rightarrow> Stack \<Rightarrow> Stack" where
  "modify i f s =
     s\<lparr>constructs := map (\<lambda>(k, c). if k = i then (k, f c) else (k, c)) (constructs s)\<rparr>"

section \<open>The deployment environment and the network construct\<close>

text \<open>
  What the base class resolves for the stack and the network construct works with: the
  availability zones of the stack, and the address block given to the subnet of a group
  in the zone of a given index.
\<close>

record Environment =
  availabilityZones :: "string list"
  allocateCidr :: "SubnetType \<Rightarrow> nat \<Rightarrow> string"

text \<open>
  The network construct belongs to the infrastructure library, whose code is not among
  the repository's sources; the source only calls it, with \<^verbatim>\<open>maxAzs\<close> and
  \<^verbatim>\<open>natGateways\<close>. The model keeps the behaviour the call relies on. The zone count is
  passed as a maximum, as the name of the property says: the construct spans the first
  \<^verbatim>\<open>maxAzs\<close> zones the environment offers. With no NAT gateway the subnet groups are a
  public and an isolated one, each with one subnet per zone; with NAT gateways the second
  group has egress instead. The source gives the network no address range, so the
  network has the library's default range.
\<close>

definition defaultCidrRange :: string where
  "defaultCidrRange = ''10.0.0.0/16''"

definition subnetGroups :: "nat \<Rightarrow> SubnetType list" where
  "subnetGroups natGateways =
     (if natGateways = 0 then [PUBLIC, PRIVATE_ISOLATED] else [PUBLIC, PRIVATE_WITH_EGRESS])"

definition groupSubnets :: "Environment \<Rightarrow> string list \<Rightarrow> SubnetType \<Rightarrow> Subnet list" where
  "groupSubnets env zones g =
     map (\<lambda>(i, z). Subnet g z (allocateCidr env g i)) (enumerate 0 zones)"

definition layoutSubnets :: "Environment \<Rightarrow> nat \<Rightarrow> nat \<Rightarrow> Subnet list" where
  "layoutSubnets env maxAzs natGateways =
     concat (map (groupSubnets env (take maxAzs (availabilityZones env)))
       (subnetGroups natGateways))"

definition newVpc :: "Environment \<Rightarrow> nat \<Rightarrow> nat \<Rightarrow> Construct" where
  "newVpc env maxAzs natGateways =
     Vpc maxAzs natGateways defaultCidrRange (layoutSubnets env maxAzs natGateways)"

text \<open>
  \<^verbatim>\<open>vpc.selectSubnets\<close>, a method of the same library: a selection with a type asks
  for the subnets of that type; the empty selection asks for the first group present
  among egress, isolated and public. A selection that finds no subnet of its group raises
  an error.
\<close>

definition subnetsOfType :: "SubnetType \<Rightarrow> Subnet list \<Rightarrow> Subnet list" where
  "subnetsOfType t sns = filter (\<lambda>sn. subnetType sn = t) sns"

definition selectedGroup :: "SubnetSelection \<Rightarrow> Subnet list \<Rightarrow> SubnetType" where
  "selectedGroup sel sns =
     (case selectedType sel of
        Some t \<Rightarrow> t
      | None \<Rightarrow>
          if subnetsOfType PRIVATE_WITH_EGRESS sns \<noteq> [] then PRIVATE_WITH_EGRESS
          else if subnetsOfType PRIVATE_ISOLATED sns \<noteq> [] then PRIVATE_ISOLATED
          else PUBLIC)"

definition selectSubnets :: "SubnetSelection \<Rightarrow> Subnet list \<Rightarrow> error + Subnet list" where
  "selectSubnets sel sns =
     (if subnetsOfType (selectedGroup sel sns) sns = [] then Inl (NoSubnets (selectedGroup sel sns))
      else Inr (subnetsOfType (selectedGroup sel sns) sns))"

definition vpcSubnetsOf :: "Stack \<Rightarrow> construct_id \<Rightarrow> error + Subnet list" where
  "vpcSubnetsOf s v =
     (case lookup s v of
        Some (Vpc _ _ _ sns) \<Rightarrow> Inr sns
      | _ \<Rightarrow> Inl (NoSuchConstruct v))"

definition vpcCidrBlockOf :: "Stack \<Rightarrow> construct_id \<Rightarrow> error + string" where
  "vpcCidrBlockOf s v =
     (case lookup s v of
        Some (Vpc _ _ block _) \<Rightarrow> Inr block
      | _ \<Rightarrow> Inl (NoSuchConstruct v))"

section \<open>Methods of the constructs\<close>

definition field :: "string \<Rightarrow> 'a option \<Rightarrow> error + 'a" where
  "field name v = (case v of None \<Rightarrow> Inl (UnsetField name) | Some x \<Rightarrow> Inr x)"

text \<open>
  \<^verbatim>\<open>addIngressRule\<close> appends the rule to the group unless the group has that rule
  already.
\<close>

definition addOnce :: "'a \<Rightarrow> 'a list \<Rightarrow> 'a list" where
  "addOnce r rs = (if r \<in> set rs then rs else rs @ [r])"

definition addIngressRule :: "construct_id \<Rightarrow> Peer \<Rightarrow> Port \<Rightarrow> Stack \<Rightarrow> Stack" where
  "addIngressRule sg p c s =
     modify sg (\<lambda>k. case k of SecurityGroup v rs \<Rightarrow> SecurityGroup v (addOnce (p, c) rs) | _ \<Rightarrow> k) s"

text \<open>
  \<^verbatim>\<open>vpc.addInterfaceEndpoint\<close> creates the endpoint and, unless it is called with
  \<^verbatim>\<open>open: false\<close>, allows the default port of the service from the whole address
  block of the network on every security group it is given. The default port of the
  services used here is 443.
\<close>

fun defaultPort :: "EndpointService \<Rightarrow> nat" where
  "defaultPort (InterfaceVpcEndpointService nm p) = p"
| "defaultPort CLOUDWATCH_LOGS = 443"
| "defaultPort S3 = 443"

fun allowDefaultPortFrom :: "construct_id list \<Rightarrow> Peer \<Rightarrow> Port \<Rightarrow> Stack \<Rightarrow> Stack" where
  "allowDefaultPortFrom [] p c s = s"
| "allowDefaultPortFrom (sg # sgs) p c s = allowDefaultPortFrom sgs p c (addIngressRule sg p c s)"

definition addInterfaceEndpoint ::
  "construct_id \<Rightarrow> construct_id \<Rightarrow> EndpointService \<Rightarrow> SubnetSelection \<Rightarrow> construct_id list \<Rightarrow>
   bool \<Rightarrow> bool option \<Rightarrow> Stack \<Rightarrow> error + Stack" where
  "addInterfaceEndpoint v i svc sel sgs dns opn s =
     andThen (vpcCidrBlockOf s v) (\<lambda>block.
       let s1 = newConstruct i (InterfaceVpcEndpoint svc sel sgs dns) s
       in Inr (if opn = Some False then s1
               else allowDefaultPortFrom sgs (ipv4 block) (tcp (defaultPort svc)) s1))"

definition addListener :: "construct_id \<Rightarrow> construct_id \<Rightarrow> nat \<Rightarrow> Stack \<Rightarrow> Stack" where
  "addListener alb i p s = newConstruct i (ApplicationListener alb p None []) s"

text \<open>\<^verbatim>\<open>addAction\<close> without a priority sets the default action of the listener.\<close>

definition addAction :: "construct_id \<Rightarrow> construct_id \<Rightarrow> ListenerAction \<Rightarrow> Stack \<Rightarrow> Stack" where
  "addAction l i a s =
     (modify l (\<lambda>k. case k of
                       ApplicationListener lb p d rs \<Rightarrow> ApplicationListener lb p (Some a) rs
                     | _ \<Rightarrow> k) s)
     \<lparr>journal := journal s @ [i]\<rparr>"

text \<open>\<^verbatim>\<open>addContainer\<close> names the container after its identifier.\<close>

definition addContainer ::
  "construct_id \<Rightarrow> construct_id \<Rightarrow> ContainerImage \<Rightarrow> LogDriver \<Rightarrow> (nat \<times> Protocol) list \<Rightarrow>
   Stack \<Rightarrow> Stack" where
  "addContainer td i img lg pms s =
     (modify td (\<lambda>k. case k of
                        FargateTaskDefinition m c cs \<Rightarrow>
                          FargateTaskDefinition m c (cs @ [ContainerDefinition i img lg pms])
                      | _ \<Rightarrow> k) s)
     \<lparr>journal := journal s @ [i]\<rparr>"

fun patternsOf :: "ListenerCondition list \<Rightarrow> string list" where
  "patternsOf [] = []"
| "patternsOf (pathPatterns ps # cs) = ps @ patternsOf cs"

text \<open>
  Modelled from the spec: the listener's \<^verbatim>\<open>addRule\<close> belongs to the load-balancer
  library, whose code is not part of the repository's sources. Section 4.3:
  ``\<^verbatim>\<open>addRule(priority, pathPatterns, targetGroup, healthCheckPath)\<close> fails if
  \<^verbatim>\<open>priority\<close> collides with an existing rule''.
\<close>

definition addRule ::
  "construct_id \<Rightarrow> nat \<Rightarrow> string list \<Rightarrow> construct_id \<Rightarrow> string \<Rightarrow> Stack \<Rightarrow> error + Stack" where
  "addRule l pr pats tg hc s =
     (case lookup s l of
        Some (ApplicationListener lb p d rs) \<Rightarrow>
          if pr \<in> set (map priority rs) then Inl (DuplicatePriority pr)
          else Inr (modify l (\<lambda>k. ApplicationListener lb p d (rs @ [ListenerRule pr pats tg hc])) s)
      | _ \<Rightarrow> Inl (NoSuchConstruct l))"

text \<open>
  \<^verbatim>\<open>registerLoadBalancerTargets\<close> takes any number of targets. For each it creates the
  new target group, with the service's container as its target, and adds the rule that
  forwards to the group.
\<close>

fun registerTarget :: "construct_id \<Rightarrow> EcsTarget \<Rightarrow> Stack \<Rightarrow> error + Stack" where
  "registerTarget svc
     (EcsTarget cn tg (applicationListener l (AddApplicationTargetsProps proto pr hc conds))) s =
     addRule l pr (patternsOf conds) tg hc
       (newConstruct tg (ApplicationTargetGroup proto hc [(svc, cn)]) s)"

fun registerLoadBalancerTargets :: "construct_id \<Rightarrow> EcsTarget list \<Rightarrow> Stack \<Rightarrow> error + Stack" where
  "registerLoadBalancerTargets svc [] s = Inr s"
| "registerLoadBalancerTargets svc (t # ts) s =
     andThen (registerTarget svc t s) (registerLoadBalancerTargets svc ts)"

text \<open>The priority a target asks for, and the listener it asks it of.\<close>

fun priorityOf :: "EcsTarget \<Rightarrow> nat" where
  "priorityOf (EcsTarget cn tg (applicationListener l props)) = targetsPriority props"

fun listenerOf :: "EcsTarget \<Rightarrow> construct_id" where
  "listenerOf (EcsTarget cn tg (applicationListener l props)) = l"

section \<open>The five methods and the constructor\<close>

definition setupVpc :: "Environment \<Rightarrow> Stack \<Rightarrow> error + Stack" where
  "setupVpc env s = Inr ((newConstruct ''VPC'' (newVpc env 2 0) s)\<lparr>vpc := Some ''VPC''\<rparr>)"

text \<open>
  The load balancer construct resolves its subnet selection when it is created, so its
  creation fails where the network has no isolated subnet.
\<close>

definition setupAlb :: "Stack \<Rightarrow> error + Stack" where
  "setupAlb s =
     andThen (field ''vpc'' (vpc s)) (\<lambda>v.
     andThen (vpcSubnetsOf s v) (\<lambda>sns.
     andThen (selectSubnets (SubnetSelection (Some PRIVATE_ISOLATED)) sns) (\<lambda>albSubnets.
       let s1 = newConstruct ''InternalAlbSg'' (SecurityGroup v []) s;
           s2 = addIngressRule ''InternalAlbSg'' anyIpv4 (tcp 80) s1;
           s3 = (newConstruct ''InternalAlb''
                   (ApplicationLoadBalancer v False (SubnetSelection (Some PRIVATE_ISOLATED))
                      ''InternalAlbSg'') s2)
                \<lparr>internalAlb := Some ''InternalAlb''\<rparr>;
           s4 = (addListener ''InternalAlb'' ''InternalHttpListener'' 80 s3)
                \<lparr>internalAlbListener := Some ''InternalHttpListener''\<rparr>
       in Inr (addAction ''InternalHttpListener'' ''DefaultAction''
                 (fixedResponse 200 ''No routes defined'') s4))))"

text \<open>The loop over the selected subnets: one ingress rule per subnet.\<close>

fun addSubnetIngressRules :: "construct_id \<Rightarrow> Subnet list \<Rightarrow> Stack \<Rightarrow> Stack" where
  "addSubnetIngressRules sg [] s = s"
| "addSubnetIngressRules sg (privateSubnet # rest) s =
     addSubnetIngressRules sg rest
       (addIngressRule sg (ipv4 (ipv4CidrBlock privateSubnet)) (tcp 443) s)"

definition setupVpcEndpointsForEcr :: "Stack \<Rightarrow> error + Stack" where
  "setupVpcEndpointsForEcr s =
     andThen (field ''vpc'' (vpc s)) (\<lambda>v.
     andThen (vpcSubnetsOf s v) (\<lambda>sns.
     andThen (selectSubnets (SubnetSelection (Some PRIVATE_ISOLATED)) sns) (\<lambda>selectedSubnets.
       let s1 = newConstruct ''InterfaceEndpointSecurityGroup'' (SecurityGroup v []) s;
           s2 = addSubnetIngressRules ''InterfaceEndpointSecurityGroup'' selectedSubnets s1
       in
     andThen (addInterfaceEndpoint v ''EcrInterfaceEndpointDkr''
                (InterfaceVpcEndpointService ''com.amazonaws.us-east-1.ecr.dkr'' 443)
                (SubnetSelection (Some PRIVATE_ISOLATED))
                [''InterfaceEndpointSecurityGroup''] True None s2) (\<lambda>s3.
     andThen (addInterfaceEndpoint v ''EcrInterfaceEndpointApi''
                (InterfaceVpcEndpointService ''com.amazonaws.us-east-1.ecr.api'' 443)
                (SubnetSelection (Some PRIVATE_ISOLATED))
                [''InterfaceEndpointSecurityGroup''] True None s3) (\<lambda>s4.
     andThen (addInterfaceEndpoint v ''CloudWatchInterfaceEndpoint'' CLOUDWATCH_LOGS
                (SubnetSelection (Some PRIVATE_ISOLATED))
                [''InterfaceEndpointSecurityGroup''] True None s4) (\<lambda>s5.
       Inr (newConstruct ''S3GatewayEndpoint''
              (GatewayVpcEndpoint S3 [SubnetSelection (Some PRIVATE_ISOLATED)]) s5)))))))"

definition setupEcsService :: "Stack \<Rightarrow> error + Stack" where
  "setupEcsService s =
     andThen (field ''vpc'' (vpc s)) (\<lambda>v.
     andThen (field ''internalAlbListener'' (internalAlbListener s)) (\<lambda>l.
       let s1 = newConstruct ''ECSCluster'' (Cluster ''SampleApi'' v) s;
           s2 = newConstruct ''EcsTaskDefinition'' (FargateTaskDefinition 512 256 []) s1;
           s3 = newConstruct ''SampleApi'' (Repository ''sample-api'') s2;
           s4 = addContainer ''EcsTaskDefinition'' ''SampleApi''
                  (fromEcrRepository ''SampleApi'') (awsLogs ''SampleApi-Logs'') [(80, TCP)] s3;
           s5 = newConstruct ''ECSService''
                  (FargateService ''ECSCluster'' ''EcsTaskDefinition'' 2 False) s4
       in registerLoadBalancerTargets ''ECSService''
            [EcsTarget ''SampleApi'' ''SampleApiTargetGroup''
               (applicationListener l
                  (AddApplicationTargetsProps HTTP 1 ''/'' [pathPatterns [''/'']])),
             EcsTarget ''SampleApi'' ''SampleApiCustomerTargetGroup''
               (applicationListener l
                  (AddApplicationTargetsProps HTTP 2 ''/'' [pathPatterns [''/customers'']]))]
            s5))"

definition setupApiGatewayVpcLink :: "Stack \<Rightarrow> error + Stack" where
  "setupApiGatewayVpcLink s =
     andThen (field ''vpc'' (vpc s)) (\<lambda>v.
     andThen (vpcSubnetsOf s v) (\<lambda>sns.
     andThen (selectSubnets (SubnetSelection (Some PRIVATE_ISOLATED)) sns) (\<lambda>selectedSubnets.
     andThen (field ''internalAlbListener'' (internalAlbListener s)) (\<lambda>l.
       let s1 = newConstruct ''HttpVpcLink'' (VpcLink v ''HttpVpcLink-ECS'' selectedSubnets) s;
           s2 = newConstruct ''HttpApi'' (HttpApi ''sampleApi-ECS'') s1;
           s3 = newConstruct ''HttpApiIntegration'' (HttpAlbIntegration l ANY ''HttpVpcLink'') s2
       in Inr (newConstruct ''HttpRoute''
                 (HttpRoute ''HttpApi'' ''HttpApiIntegration'' (''/{proxy+}'', ANY)) s3)))))"

text \<open>
  The constructor hands the stack properties to the base class and reads nothing from
  them itself. The base class, which is not among the repository's sources, resolves
  from them the environment of the stack; that resolution is the parameter \<open>super\<close>. The
  five methods then run in this order on the empty construct tree.
\<close>

definition constructor :: "('p option \<Rightarrow> Environment) \<Rightarrow> 'p option \<Rightarrow> error + Stack" where
  "constructor super props =
     andThen (andThen (andThen (andThen
       (setupVpc (super props) emptyStack)
       setupAlb)
       setupVpcEndpointsForEcr)
       setupEcsService)
       setupApiGatewayVpcLink"

section \<open>Reading the topology\<close>

text \<open>The NAT gateways the network constructs of a stack ask for.\<close>

definition natGatewayCount :: "Stack \<Rightarrow> nat" where
  "natGatewayCount s =
     sum_list (map (\<lambda>(i, c). case c of Vpc maxAzs natGateways block sns \<Rightarrow> natGateways | _ \<Rightarrow> 0)
       (constructs s))"

text \<open>The subnets a load balancer is bound to: its selection, read in its network.\<close>

definition loadBalancerSubnets :: "Stack \<Rightarrow> construct_id \<Rightarrow> error + Subnet list" where
  "loadBalancerSubnets s alb =
     (case lookup s alb of
        Some (ApplicationLoadBalancer v facing sel sg) \<Rightarrow>
          andThen (vpcSubnetsOf s v) (\<lambda>sns. selectSubnets sel sns)
      | _ \<Rightarrow> Inl (NoSuchConstruct alb))"

text \<open>
  The source creates the service without a subnet selection. The service construct of the
  library then selects in the network of its cluster: the public subnets when a public
  address is assigned, the empty selection otherwise.
\<close>

definition serviceSubnets :: "Stack \<Rightarrow> construct_id \<Rightarrow> error + Subnet list" where
  "serviceSubnets s svc =
     (case lookup s svc of
        Some (FargateService cl td n assignPublicIp) \<Rightarrow>
          (case lookup s cl of
             Some (Cluster nm v) \<Rightarrow>
               andThen (vpcSubnetsOf s v) (\<lambda>sns.
                 selectSubnets (SubnetSelection (if assignPublicIp then Some PUBLIC else None)) sns)
           | _ \<Rightarrow> Inl (NoSuchConstruct cl))
      | _ \<Rightarrow> Inl (NoSuchConstruct svc))"

text \<open>Adding the rules of a list one after the other, each unless it is there already.\<close>

fun addAllOnce :: "'a list \<Rightarrow> 'a list \<Rightarrow> 'a list" where
  "addAllOnce [] rs = rs"
| "addAllOnce (r # others) rs = addAllOnce others (addOnce r rs)"

text \<open>The routes declared in a stack, in creation order.\<close>

definition httpRoutes :: "Stack \<Rightarrow> (construct_id \<times> Construct) list" where
  "httpRoutes s =
     filter (\<lambda>(i, c). case c of HttpRoute api integ key \<Rightarrow> True | _ \<Rightarrow> False) (constructs s)"

text \<open>The ingress rules of a security group.\<close>

definition ingressRules :: "Stack \<Rightarrow> construct_id \<Rightarrow> (Peer \<times> Port) list" where
  "ingressRules s sg = (case lookup s sg of Some (SecurityGroup v rs) \<Rightarrow> rs | _ \<Rightarrow> [])"

text \<open>In a journal, \<open>a\<close> is entered before the first entry of \<open>b\<close>, and \<open>b\<close> is entered.\<close>

definition precedes :: "'a \<Rightarrow> 'a \<Rightarrow> 'a list \<Rightarrow> bool" where
  "precedes a b xs = (a \<in> set (takeWhile (\<lambda>x. x \<noteq> b) xs) \<and> b \<in> set xs)"

section \<open>Request-time behaviour of the topology\<close>

text \<open>
  Modelled from the spec: requests are evaluated by the managed load balancer, not by
  code of the repository. Section 4.3: ``the rule with the lowest priority number whose
  pattern set matches wins; [...] If no rule matches, the listener returns a fixed HTTP
  200 response with a static body''. How one pattern matches a path is left open here:
  it is the parameter \<open>matches\<close>.
\<close>

definition ruleMatches :: "(string \<Rightarrow> string \<Rightarrow> bool) \<Rightarrow> string \<Rightarrow> ListenerRule \<Rightarrow> bool" where
  "ruleMatches matches p r = list_ex (\<lambda>pat. matches pat p) (rulePatterns r)"

definition evaluate ::
  "(string \<Rightarrow> string \<Rightarrow> bool) \<Rightarrow> ListenerRule list \<Rightarrow> ListenerAction \<Rightarrow> string \<Rightarrow> ListenerAction" where
  "evaluate matches rs dflt p =
     (case find (ruleMatches matches p) (sort_key priority rs) of
        Some r \<Rightarrow> forward (target r)
      | None \<Rightarrow> dflt)"

definition route :: "(string \<Rightarrow> string \<Rightarrow> bool) \<Rightarrow> Stack \<Rightarrow> string \<Rightarrow> ListenerAction option" where
  "route matches s p =
     (case internalAlbListener s of
        None \<Rightarrow> None
      | Some l \<Rightarrow>
          (case lookup s l of
             Some (ApplicationListener lb port (Some dflt) rs) \<Rightarrow> Some (evaluate matches rs dflt p)
           | _ \<Rightarrow> None))"

definition listenerRules :: "Stack \<Rightarrow> construct_id \<Rightarrow> ListenerRule list" where
  "listenerRules s l =
     (case lookup s l of Some (ApplicationListener lb port d rs) \<Rightarrow> rs | _ \<Rightarrow> [])"

text \<open>
  Modelled from the spec: the replicas of a service are started and kept by the platform's
  scaling controller, not by code of the repository. Section 4.4: the controller converges
  the replica count to the desired count, every replica runs the one task specification,
  and the workload's replicas are the members of the target groups it is registered with.
\<close>

datatype Replica = Replica (replicaOf: construct_id) (replicaIndex: nat) (runsTask: construct_id)

definition replicas :: "Stack \<Rightarrow> construct_id \<Rightarrow> Replica list" where
  "replicas s svc =
     (case lookup s svc of
        Some (FargateService cl td desiredCount pub) \<Rightarrow> map (\<lambda>i. Replica svc i td) [0..<desiredCount]
      | _ \<Rightarrow> [])"

definition members :: "Stack \<Rightarrow> construct_id \<Rightarrow> Replica list" where
  "members s tg =
     (case lookup s tg of
        Some (ApplicationTargetGroup proto hc ts) \<Rightarrow> concat (map (\<lambda>(svc, cn). replicas s svc) ts)
      | _ \<Rightarrow> [])"

section \<open>Sample environments and inputs\<close>

text \<open>
  A region that offers three zones, of which the network takes two, and one that offers a
  single zone. The address blocks are those of the /16 range cut in four, for two zones,
  and cut in two, for one zone.
\<close>

definition quarterBlocks :: "SubnetType \<Rightarrow> nat \<Rightarrow> string" where
  "quarterBlocks g i =
     (if g = PUBLIC then (if i = 0 then ''10.0.0.0/18'' else ''10.0.64.0/18'')
      else (if i = 0 then ''10.0.128.0/18'' else ''10.0.192.0/18''))"

definition halfBlocks :: "SubnetType \<Rightarrow> nat \<Rightarrow> string" where
  "halfBlocks g i = (if g = PUBLIC then ''10.0.0.0/17'' else ''10.0.128.0/17'')"

definition threeZones :: Environment where
  "threeZones =
     \<lparr>availabilityZones = [''us-east-1a'', ''us-east-1b'', ''us-east-1c''],
      allocateCidr = quarterBlocks\<rparr>"

definition singleZone :: Environment where
  "singleZone = \<lparr>availabilityZones = [''local-1a''], allocateCidr = halfBlocks\<rparr>"



text \<open>A stack that holds nothing but a listener without rules.\<close>

definition bareListener :: Stack where
  "bareListener = addListener ''InternalAlb'' ''InternalHttpListener'' 80 emptyStack"

text \<open>Matching a pattern by equality with the path, and by being a prefix of the path.\<close>

definition exactMatch :: "string \<Rightarrow> string \<Rightarrow> bool" where
  "exactMatch pat p = (p = pat)"

definition prefixMatch :: "string \<Rightarrow> string \<Rightarrow> bool" where
  "prefixMatch pat p = (take (length pat) p = pat)"

section \<open>Running the constructor\<close>

lemma modify_modify: "modify i f (modify i g s) = modify i (f \<circ> g) s"
  by (simp add: modify_def o_def split_def)

lemma modify_id: "modify i (\<lambda>k. k) s = s"
  by (simp add: modify_def split_def)

lemma addOnce_idem: "addOnce r (addOnce r rs) = addOnce r rs"
  by (simp add: addOnce_def)

lemma set_addOnce: "set (addOnce r rs) = insert r (set rs)"
  by (auto simp: addOnce_def)

lemma set_addAllOnce: "set (addAllOnce xs rs) = set rs \<union> set xs"
  by (induction xs arbitrary: rs) (auto simp: set_addOnce)

lemma addAllOnce_fresh:
  "distinct xs \<Longrightarrow> set xs \<inter> set rs = {} \<Longrightarrow> addAllOnce xs rs = rs @ xs"
  by (induction xs arbitrary: rs) (auto simp: addOnce_def)

text \<open>The loop adds, to the group it is given, one rule per subnet, in the list's order.\<close>

lemma addSubnetIngressRules_modify:
  "addSubnetIngressRules sg sns s =
     modify sg (\<lambda>k. case k of
                       SecurityGroup v rs \<Rightarrow>
                         SecurityGroup v
                           (addAllOnce (map (\<lambda>sn. (ipv4 (ipv4CidrBlock sn), tcp 443)) sns) rs)
                     | _ \<Rightarrow> k) s"
proof (induction sns arbitrary: s)
  case Nil
  have "(\<lambda>k. case k of
               SecurityGroup v rs \<Rightarrow>
                 SecurityGroup v
                   (addAllOnce (map (\<lambda>sn. (ipv4 (ipv4CidrBlock sn), tcp 443)) []) rs)
             | _ \<Rightarrow> k) = (\<lambda>k. k)"
    by (rule ext) (simp split: Construct.splits)
  then show ?case
    by (simp only: addSubnetIngressRules.simps modify_id)
next
  case (Cons sn sns)
  have "(\<lambda>k. case k of
               SecurityGroup v rs \<Rightarrow>
                 SecurityGroup v
                   (addAllOnce (map (\<lambda>sn. (ipv4 (ipv4CidrBlock sn), tcp 443)) sns) rs)
             | _ \<Rightarrow> k) \<circ>
        (\<lambda>k. case k of
               SecurityGroup v rs \<Rightarrow>
                 SecurityGroup v (addOnce (ipv4 (ipv4CidrBlock sn), tcp 443) rs)
             | _ \<Rightarrow> k) =
        (\<lambda>k. case k of
               SecurityGroup v rs \<Rightarrow>
                 SecurityGroup v
                   (addAllOnce (map (\<lambda>sn. (ipv4 (ipv4CidrBlock sn), tcp 443)) (sn # sns)) rs)
             | _ \<Rightarrow> k)"
    by (rule ext) (simp split: Construct.splits)
  then show ?case
    by (simp only: addSubnetIngressRules.simps Cons addIngressRule_def modify_modify)
qed

text \<open>The subnets the network construct lays out when it is given no NAT gateway.\<close>

lemma subnetsOfType_groupSubnets:
  "subnetsOfType t (groupSubnets env zs g) = (if t = g then groupSubnets env zs g else [])"
  by (auto simp: subnetsOfType_def groupSubnets_def filter_map o_def split_def)

lemma layoutSubnets_no_nat:
  "layoutSubnets env m 0 =
     groupSubnets env (take m (availabilityZones env)) PUBLIC @
     groupSubnets env (take m (availabilityZones env)) PRIVATE_ISOLATED"
  by (simp add: layoutSubnets_def subnetGroups_def)

lemma subnetsOfType_append:
  "subnetsOfType t (xs @ ys) = subnetsOfType t xs @ subnetsOfType t ys"
  by (simp add: subnetsOfType_def)

lemma isolated_layout:
  "subnetsOfType PRIVATE_ISOLATED (layoutSubnets env m 0) =
     groupSubnets env (take m (availabilityZones env)) PRIVATE_ISOLATED"
  by (simp add: layoutSubnets_no_nat subnetsOfType_append subnetsOfType_groupSubnets)

lemma egress_layout:
  "subnetsOfType PRIVATE_WITH_EGRESS (layoutSubnets env m 0) = []"
  by (simp add: layoutSubnets_no_nat subnetsOfType_append subnetsOfType_groupSubnets)

lemma public_layout:
  "subnetsOfType PUBLIC (layoutSubnets env m 0) =
     groupSubnets env (take m (availabilityZones env)) PUBLIC"
  by (simp add: layoutSubnets_no_nat subnetsOfType_append subnetsOfType_groupSubnets)

lemma groupSubnets_Nil: "groupSubnets env zs g = [] \<longleftrightarrow> zs = []"
  by (cases zs) (simp_all add: groupSubnets_def)

lemma subnetsOfType_all: "list_all (\<lambda>sn. subnetType sn = t) (subnetsOfType t sns)"
  by (simp add: subnetsOfType_def list_all_iff)

lemma zones_isolated:
  "map availabilityZone (groupSubnets env zs g) = zs"
  by (simp add: groupSubnets_def o_def split_def)

lemma length_groupSubnets: "length (groupSubnets env zs g) = length zs"
  by (simp add: groupSubnets_def)

lemma isolated_present:
  "subnetsOfType PRIVATE_ISOLATED (layoutSubnets env 2 0) = [] \<longleftrightarrow> availabilityZones env = []"
  by (simp add: isolated_layout groupSubnets_Nil)

lemma select_isolated:
  "availabilityZones env \<noteq> [] \<Longrightarrow>
     selectSubnets (SubnetSelection (Some PRIVATE_ISOLATED)) (layoutSubnets env 2 0) =
       Inr (subnetsOfType PRIVATE_ISOLATED (layoutSubnets env 2 0))"
  by (simp add: selectSubnets_def selectedGroup_def isolated_present)

lemma select_isolated_none:
  "availabilityZones env = [] \<Longrightarrow>
     selectSubnets (SubnetSelection (Some PRIVATE_ISOLATED)) (layoutSubnets env 2 0) =
       Inl (NoSubnets PRIVATE_ISOLATED)"
  by (simp add: selectSubnets_def selectedGroup_def isolated_present)

lemma select_default:
  "availabilityZones env \<noteq> [] \<Longrightarrow>
     selectSubnets (SubnetSelection None) (layoutSubnets env 2 0) =
       Inr (subnetsOfType PRIVATE_ISOLATED (layoutSubnets env 2 0))"
  by (simp add: selectSubnets_def selectedGroup_def isolated_present egress_layout)

lemma addOnce_Nil: "addOnce r [] = [r]"
  by (simp add: addOnce_def)

lemmas run_defs =
  constructor_def setupVpc_def setupAlb_def setupVpcEndpointsForEcr_def
  setupEcsService_def setupApiGatewayVpcLink_def andThen_def field_def newConstruct_def
  addIngressRule_def addListener_def addAction_def addContainer_def addRule_def
  addInterfaceEndpoint_def modify_def lookup_def vpcSubnetsOf_def vpcCidrBlockOf_def
  newVpc_def emptyStack_def Let_def defaultCidrRange_def addSubnetIngressRules_modify
  addOnce_idem addOnce_Nil

text \<open>
  Where the environment offers at least one zone the constructor completes, and this is
  the stack it returns.
\<close>

lemma constructor_run:
  assumes "super props = env" and "availabilityZones env \<noteq> []"
  shows "constructor super props =
     Inr \<lparr>vpc = Some ''VPC'', internalAlb = Some ''InternalAlb'',
          internalAlbListener = Some ''InternalHttpListener'',
          constructs =
            [(''VPC'', Vpc 2 0 ''10.0.0.0/16'' (layoutSubnets env 2 0)),
             (''InternalAlbSg'', SecurityGroup ''VPC'' [(anyIpv4, tcp 80)]),
             (''InternalAlb'',
              ApplicationLoadBalancer ''VPC'' False (SubnetSelection (Some PRIVATE_ISOLATED))
                ''InternalAlbSg''),
             (''InternalHttpListener'',
              ApplicationListener ''InternalAlb'' 80
                (Some (fixedResponse 200 ''No routes defined''))
                [ListenerRule 1 [''/''] ''SampleApiTargetGroup'' ''/'',
                 ListenerRule 2 [''/customers''] ''SampleApiCustomerTargetGroup'' ''/'']),
             (''InterfaceEndpointSecurityGroup'',
              SecurityGroup ''VPC''
                (addOnce (ipv4 ''10.0.0.0/16'', tcp 443)
                   (addAllOnce
                      (map (\<lambda>sn. (ipv4 (ipv4CidrBlock sn), tcp 443))
                         (subnetsOfType PRIVATE_ISOLATED (layoutSubnets env 2 0)))
                      []))),
             (''EcrInterfaceEndpointDkr'',
              InterfaceVpcEndpoint
                (InterfaceVpcEndpointService ''com.amazonaws.us-east-1.ecr.dkr'' 443)
                (SubnetSelection (Some PRIVATE_ISOLATED))
                [''InterfaceEndpointSecurityGroup''] True),
             (''EcrInterfaceEndpointApi'',
              InterfaceVpcEndpoint
                (InterfaceVpcEndpointService ''com.amazonaws.us-east-1.ecr.api'' 443)
                (SubnetSelection (Some PRIVATE_ISOLATED))
                [''InterfaceEndpointSecurityGroup''] True),
             (''CloudWatchInterfaceEndpoint'',
              InterfaceVpcEndpoint CLOUDWATCH_LOGS (SubnetSelection (Some PRIVATE_ISOLATED))
                [''InterfaceEndpointSecurityGroup''] True),
             (''S3GatewayEndpoint'',
              GatewayVpcEndpoint S3 [SubnetSelection (Some PRIVATE_ISOLATED)]),
             (''ECSCluster'', Cluster ''SampleApi'' ''VPC''),
             (''EcsTaskDefinition'',
              FargateTaskDefinition 512 256
                [ContainerDefinition ''SampleApi'' (fromEcrRepository ''SampleApi'')
                   (awsLogs ''SampleApi-Logs'') [(80, TCP)]]),
             (''SampleApi'', Repository ''sample-api''),
             (''ECSService'', FargateService ''ECSCluster'' ''EcsTaskDefinition'' 2 False),
             (''SampleApiTargetGroup'',
              ApplicationTargetGroup HTTP ''/'' [(''ECSService'', ''SampleApi'')]),
             (''SampleApiCustomerTargetGroup'',
              ApplicationTargetGroup HTTP ''/'' [(''ECSService'', ''SampleApi'')]),
             (''HttpVpcLink'',
              VpcLink ''VPC'' ''HttpVpcLink-ECS''
                (subnetsOfType PRIVATE_ISOLATED (layoutSubnets env 2 0))),
             (''HttpApi'', HttpApi ''sampleApi-ECS''),
             (''HttpApiIntegration'',
              HttpAlbIntegration ''InternalHttpListener'' ANY ''HttpVpcLink''),
             (''HttpRoute'',
              HttpRoute ''HttpApi'' ''HttpApiIntegration'' (''/{proxy+}'', ANY))],
          journal =
            [''VPC'', ''InternalAlbSg'', ''InternalAlb'', ''InternalHttpListener'',
             ''DefaultAction'', ''InterfaceEndpointSecurityGroup'',
             ''EcrInterfaceEndpointDkr'', ''EcrInterfaceEndpointApi'',
             ''CloudWatchInterfaceEndpoint'', ''S3GatewayEndpoint'', ''ECSCluster'',
             ''EcsTaskDefinition'', ''SampleApi'', ''SampleApi'', ''ECSService'',
             ''SampleApiTargetGroup'', ''SampleApiCustomerTargetGroup'', ''HttpVpcLink'',
             ''HttpApi'', ''HttpApiIntegration'', ''HttpRoute'']\<rparr>"
  using assms by (simp add: run_defs select_isolated)

text \<open>Where the environment offers no zone, the load balancer finds no subnet.\<close>

lemma constructor_without_zones:
  "availabilityZones (super props) = [] \<Longrightarrow>
     constructor super props = Inl (NoSubnets PRIVATE_ISOLATED)"
  by (simp add: constructor_def setupVpc_def setupAlb_def andThen_def field_def
      newConstruct_def lookup_def vpcSubnetsOf_def newVpc_def emptyStack_def
      select_isolated_none)

lemma threeZones_offered: "availabilityZones threeZones \<noteq> []"
  by (simp add: threeZones_def)

lemma singleZone_offered: "availabilityZones singleZone \<noteq> []"
  by (simp add: singleZone_def)

lemma threeZones_isolated:
  "subnetsOfType PRIVATE_ISOLATED (layoutSubnets threeZones 2 0) =
     [Subnet PRIVATE_ISOLATED ''us-east-1a'' ''10.0.128.0/18'',
      Subnet PRIVATE_ISOLATED ''us-east-1b'' ''10.0.192.0/18'']"
  by (simp add: isolated_layout groupSubnets_def threeZones_def quarterBlocks_def
      enumerate_eq_zip upt_rec)

section \<open>The listener's rule set\<close>

text \<open>
  Claim C1. Wherever the constructor completes, that is, in every environment that offers
  a zone, the listener it builds holds exactly: the default action, a fixed response of
  status 200 with body ``No routes defined''; a rule of priority 1 with the single path
  pattern \<^verbatim>\<open>/\<close>, forwarding to the target group \<^verbatim>\<open>SampleApiTargetGroup\<close> (group A)
  whose health-check path is \<^verbatim>\<open>/\<close>; and a rule of priority 2 with the single path
  pattern \<^verbatim>\<open>/customers\<close>, forwarding to \<^verbatim>\<open>SampleApiCustomerTargetGroup\<close> (group B)
  whose health-check path is \<^verbatim>\<open>/\<close>. No other rule is on the listener.
\<close>

theorem listener_rule_set:
  "availabilityZones (super props) \<noteq> [] \<Longrightarrow>
   \<exists>s. constructor super props = Inr s
     \<and> internalAlbListener s = Some ''InternalHttpListener''
     \<and> lookup s ''InternalHttpListener'' =
         Some (ApplicationListener ''InternalAlb'' 80
                 (Some (fixedResponse 200 ''No routes defined''))
                 [ListenerRule 1 [''/''] ''SampleApiTargetGroup'' ''/'',
                  ListenerRule 2 [''/customers''] ''SampleApiCustomerTargetGroup'' ''/''])
     \<and> lookup s ''SampleApiTargetGroup'' =
         Some (ApplicationTargetGroup HTTP ''/'' [(''ECSService'', ''SampleApi'')])
     \<and> lookup s ''SampleApiCustomerTargetGroup'' =
         Some (ApplicationTargetGroup HTTP ''/'' [(''ECSService'', ''SampleApi'')])"
  by (simp add: constructor_run lookup_def)

text \<open>The region with three zones.\<close>

theorem listener_rule_set_witness:
  "\<exists>s. constructor (\<lambda>p. threeZones) (None :: unit option) = Inr s
     \<and> lookup s ''InternalHttpListener'' =
         Some (ApplicationListener ''InternalAlb'' 80
                 (Some (fixedResponse 200 ''No routes defined''))
                 [ListenerRule 1 [''/''] ''SampleApiTargetGroup'' ''/'',
                  ListenerRule 2 [''/customers''] ''SampleApiCustomerTargetGroup'' ''/''])"
  using listener_rule_set [of "\<lambda>p. threeZones" "None :: unit option"] threeZones_offered
  by auto

section \<open>Isolation of the workload and of the routing layer\<close>

text \<open>
  Claim C3. Wherever the constructor completes, in the stack it builds: the network asks
  for zero NAT gateways and has no subnet with egress; the load balancer is internal and
  bound to exactly the isolated subnets of the network; the service assigns no public
  address to its tasks and, having no subnet selection of its own, is placed in exactly
  the isolated subnets as well. Every subnet of either placement is an isolated one.
\<close>

theorem isolated_placement:
  "availabilityZones (super props) \<noteq> [] \<Longrightarrow>
   \<exists>s sns. constructor super props = Inr s
     \<and> lookup s ''VPC'' = Some (Vpc 2 0 ''10.0.0.0/16'' sns)
     \<and> natGatewayCount s = 0
     \<and> subnetsOfType PRIVATE_WITH_EGRESS sns = []
     \<and> lookup s ''InternalAlb'' =
         Some (ApplicationLoadBalancer ''VPC'' False (SubnetSelection (Some PRIVATE_ISOLATED))
                 ''InternalAlbSg'')
     \<and> loadBalancerSubnets s ''InternalAlb'' = Inr (subnetsOfType PRIVATE_ISOLATED sns)
     \<and> lookup s ''ECSService'' = Some (FargateService ''ECSCluster'' ''EcsTaskDefinition'' 2 False)
     \<and> serviceSubnets s ''ECSService'' = Inr (subnetsOfType PRIVATE_ISOLATED sns)
     \<and> list_all (\<lambda>sn. subnetType sn = PRIVATE_ISOLATED) (subnetsOfType PRIVATE_ISOLATED sns)"
  by (simp add: constructor_run lookup_def natGatewayCount_def loadBalancerSubnets_def
      serviceSubnets_def vpcSubnetsOf_def andThen_def egress_layout select_default
      select_isolated subnetsOfType_all)

text \<open>
  In the region with three zones both placements are the two isolated subnets of the first
  two zones.
\<close>

theorem isolated_placement_witness:
  "\<exists>s. constructor (\<lambda>p. threeZones) (None :: unit option) = Inr s
     \<and> natGatewayCount s = 0
     \<and> loadBalancerSubnets s ''InternalAlb'' =
         Inr [Subnet PRIVATE_ISOLATED ''us-east-1a'' ''10.0.128.0/18'',
              Subnet PRIVATE_ISOLATED ''us-east-1b'' ''10.0.192.0/18'']
     \<and> serviceSubnets s ''ECSService'' =
         Inr [Subnet PRIVATE_ISOLATED ''us-east-1a'' ''10.0.128.0/18'',
              Subnet PRIVATE_ISOLATED ''us-east-1b'' ''10.0.192.0/18'']"
  using isolated_placement [of "\<lambda>p. threeZones" "None :: unit option"]
  by (simp add: constructor_run [where env = threeZones] threeZones_offered lookup_def
      natGatewayCount_def loadBalancerSubnets_def serviceSubnets_def vpcSubnetsOf_def
      andThen_def select_isolated select_default threeZones_isolated)

section \<open>Security boundaries\<close>

text \<open>
  The sources and ports the endpoint group admits, wherever the constructor completes:
  the address blocks of the isolated subnets and the address block of the whole network,
  on TCP 443.
\<close>

lemma endpoint_group_sources:
  "availabilityZones (super props) \<noteq> [] \<Longrightarrow>
   \<exists>s sns. constructor super props = Inr s
     \<and> lookup s ''VPC'' = Some (Vpc 2 0 ''10.0.0.0/16'' sns)
     \<and> ingressRules s ''InternalAlbSg'' = [(anyIpv4, tcp 80)]
     \<and> set (ingressRules s ''InterfaceEndpointSecurityGroup'') =
         (\<lambda>sn. (ipv4 (ipv4CidrBlock sn), tcp 443)) ` set (subnetsOfType PRIVATE_ISOLATED sns)
         \<union> {(ipv4 ''10.0.0.0/16'', tcp 443)}"
  by (auto simp: constructor_run lookup_def ingressRules_def set_addOnce set_addAllOnce)

text \<open>
  Claim C5 fails on the code. In the region with three zones, the load balancer's group
  has the single rule TCP 80 from any IPv4 source, as claimed, and the loop has given the
  endpoint group one rule per isolated subnet; but each of the three calls of
  \<^verbatim>\<open>addInterfaceEndpoint\<close> is made with that group and without \<^verbatim>\<open>open: false\<close>, so
  the group also admits TCP 443 from the block of the whole network, public subnets
  included. The set of sources is not the set of blocks of the isolated subnets.
\<close>

theorem endpoint_group_admits_whole_network:
  "\<exists>s. constructor (\<lambda>p. threeZones) (None :: unit option) = Inr s
     \<and> ingressRules s ''InternalAlbSg'' = [(anyIpv4, tcp 80)]
     \<and> subnetsOfType PRIVATE_ISOLATED (layoutSubnets threeZones 2 0) =
         [Subnet PRIVATE_ISOLATED ''us-east-1a'' ''10.0.128.0/18'',
          Subnet PRIVATE_ISOLATED ''us-east-1b'' ''10.0.192.0/18'']
     \<and> ingressRules s ''InterfaceEndpointSecurityGroup'' =
         [(ipv4 ''10.0.128.0/18'', tcp 443), (ipv4 ''10.0.192.0/18'', tcp 443),
          (ipv4 ''10.0.0.0/16'', tcp 443)]
     \<and> (ipv4 ''10.0.0.0/16'', tcp 443) \<in> set (ingressRules s ''InterfaceEndpointSecurityGroup'')
     \<and> ''10.0.0.0/16'' \<notin>
         ipv4CidrBlock ` set (subnetsOfType PRIVATE_ISOLATED (layoutSubnets threeZones 2 0))
     \<and> fst ` set (ingressRules s ''InterfaceEndpointSecurityGroup'') \<noteq>
         ipv4 ` ipv4CidrBlock ` set (subnetsOfType PRIVATE_ISOLATED (layoutSubnets threeZones 2 0))"
proof -
  let ?iso = "subnetsOfType PRIVATE_ISOLATED (layoutSubnets threeZones 2 0)"
  let ?rules = "[(ipv4 ''10.0.128.0/18'', tcp 443), (ipv4 ''10.0.192.0/18'', tcp 443),
                 (ipv4 ''10.0.0.0/16'', tcp 443)]"
  obtain s where run: "constructor (\<lambda>p. threeZones) (None :: unit option) = Inr s"
    and alb: "ingressRules s ''InternalAlbSg'' = [(anyIpv4, tcp 80)]"
    and fabric: "ingressRules s ''InterfaceEndpointSecurityGroup'' = ?rules"
    by (simp add: constructor_run [where env = threeZones] threeZones_offered lookup_def
        ingressRules_def threeZones_isolated addOnce_def)
  have out: "''10.0.0.0/16'' \<notin> ipv4CidrBlock ` set ?iso"
    by (simp add: threeZones_isolated)
  have inside: "(ipv4 ''10.0.0.0/16'', tcp 443) \<in> set ?rules"
    by simp
  then have "ipv4 ''10.0.0.0/16'' \<in> fst ` set ?rules"
    by force
  moreover from out have "ipv4 ''10.0.0.0/16'' \<notin> ipv4 ` ipv4CidrBlock ` set ?iso"
    by auto
  ultimately have differ: "fst ` set ?rules \<noteq> ipv4 ` ipv4CidrBlock ` set ?iso"
    by metis
  from run alb fabric out inside differ threeZones_isolated show ?thesis
    by (intro exI [of _ s]) simp
qed

section \<open>The public bridge\<close>

text \<open>
  Claim C6. Wherever the constructor completes, the stack it builds declares exactly one
  route. Its key is the path \<^verbatim>\<open>/{proxy+}\<close> with method \<^verbatim>\<open>ANY\<close>; its integration
  forwards, with method \<^verbatim>\<open>ANY\<close> and through the VPC link \<^verbatim>\<open>HttpVpcLink\<close>, to the
  listener held in the field \<^verbatim>\<open>internalAlbListener\<close>, which is the port-80 listener of
  the internal load balancer.
\<close>

theorem single_wildcard_route:
  "availabilityZones (super props) \<noteq> [] \<Longrightarrow>
   \<exists>s. constructor super props = Inr s
     \<and> httpRoutes s =
         [(''HttpRoute'', HttpRoute ''HttpApi'' ''HttpApiIntegration'' (''/{proxy+}'', ANY))]
     \<and> lookup s ''HttpApi'' = Some (HttpApi ''sampleApi-ECS'')
     \<and> lookup s ''HttpApiIntegration'' =
         Some (HttpAlbIntegration ''InternalHttpListener'' ANY ''HttpVpcLink'')
     \<and> lookup s ''HttpVpcLink'' =
         Some (VpcLink ''VPC'' ''HttpVpcLink-ECS''
                 (subnetsOfType PRIVATE_ISOLATED (layoutSubnets (super props) 2 0)))
     \<and> internalAlbListener s = Some ''InternalHttpListener''
     \<and> (\<exists>d rs. lookup s ''InternalHttpListener'' =
           Some (ApplicationListener ''InternalAlb'' 80 d rs))
     \<and> lookup s ''InternalAlb'' =
         Some (ApplicationLoadBalancer ''VPC'' False (SubnetSelection (Some PRIVATE_ISOLATED))
                 ''InternalAlbSg'')"
  by (simp add: constructor_run lookup_def httpRoutes_def)

text \<open>The region with three zones.\<close>

theorem single_wildcard_route_witness:
  "\<exists>s. constructor (\<lambda>p. threeZones) (None :: unit option) = Inr s
     \<and> httpRoutes s =
         [(''HttpRoute'', HttpRoute ''HttpApi'' ''HttpApiIntegration'' (''/{proxy+}'', ANY))]
     \<and> lookup s ''HttpApiIntegration'' =
         Some (HttpAlbIntegration ''InternalHttpListener'' ANY ''HttpVpcLink'')"
  using single_wildcard_route [of "\<lambda>p. threeZones" "None :: unit option"] threeZones_offered
  by auto

text \<open>
  Claim C7. Wherever the constructor completes, its run passes through a stack, the one
  left by the first four methods, in which the listener exists with its default action,
  the fixed response of status 200, and in which neither the VPC link, nor the HTTP API,
  nor the integration, nor the route exists; the bridge is built from that stack. In the
  journal of the finished stack, the listener and its default action are entered, once
  each, before the VPC link, which comes before the HTTP API, the integration and the
  route, in this order.
\<close>

theorem listener_before_bridge:
  "availabilityZones (super props) \<noteq> [] \<Longrightarrow>
   \<exists>s4 s.
       andThen (andThen (andThen (setupVpc (super props) emptyStack) setupAlb)
         setupVpcEndpointsForEcr) setupEcsService = Inr s4
     \<and> (\<exists>rs. lookup s4 ''InternalHttpListener'' =
           Some (ApplicationListener ''InternalAlb'' 80
                   (Some (fixedResponse 200 ''No routes defined'')) rs))
     \<and> map (\<lambda>i. lookup s4 i) [''HttpVpcLink'', ''HttpApi'', ''HttpApiIntegration'', ''HttpRoute''] =
         [None, None, None, None]
     \<and> setupApiGatewayVpcLink s4 = Inr s
     \<and> constructor super props = Inr s
     \<and> precedes ''InternalHttpListener'' ''HttpVpcLink'' (journal s)
     \<and> precedes ''DefaultAction'' ''HttpVpcLink'' (journal s)
     \<and> precedes ''HttpVpcLink'' ''HttpApi'' (journal s)
     \<and> precedes ''HttpApi'' ''HttpApiIntegration'' (journal s)
     \<and> precedes ''HttpApiIntegration'' ''HttpRoute'' (journal s)
     \<and> count_list (journal s) ''InternalHttpListener'' = 1
     \<and> count_list (journal s) ''DefaultAction'' = 1"
  by (simp add: run_defs select_isolated precedes_def)

text \<open>The region with three zones.\<close>

theorem listener_before_bridge_witness:
  "\<exists>s. constructor (\<lambda>p. threeZones) (None :: unit option) = Inr s
     \<and> precedes ''InternalHttpListener'' ''HttpVpcLink'' (journal s)
     \<and> precedes ''DefaultAction'' ''HttpVpcLink'' (journal s)
     \<and> precedes ''DefaultAction'' ''HttpRoute'' (journal s)"
  using listener_before_bridge [of "\<lambda>p. threeZones" "None :: unit option"] threeZones_offered
  by (simp add: constructor_run [where env = threeZones] precedes_def)

section \<open>The compute workload\<close>

text \<open>
  Claim C9. Wherever the constructor completes, the stack it builds has a network with at
  most 2 zones and a service of desired count 2. The service has exactly 2 replicas,
  both of the one task definition, whose single container maps port 80 over TCP. The
  members of target group A (\<^verbatim>\<open>SampleApiTargetGroup\<close>) and of target group B
  (\<^verbatim>\<open>SampleApiCustomerTargetGroup\<close>) are exactly these replicas, and the two rules of the
  listener forward to these two groups.
\<close>

theorem two_replicas_in_both_groups:
  "availabilityZones (super props) \<noteq> [] \<Longrightarrow>
   \<exists>s. constructor super props = Inr s
     \<and> lookup s ''VPC'' = Some (Vpc 2 0 ''10.0.0.0/16'' (layoutSubnets (super props) 2 0))
     \<and> lookup s ''ECSService'' = Some (FargateService ''ECSCluster'' ''EcsTaskDefinition'' 2 False)
     \<and> replicas s ''ECSService'' =
         [Replica ''ECSService'' 0 ''EcsTaskDefinition'',
          Replica ''ECSService'' 1 ''EcsTaskDefinition'']
     \<and> lookup s ''EcsTaskDefinition'' =
         Some (FargateTaskDefinition 512 256
                 [ContainerDefinition ''SampleApi'' (fromEcrRepository ''SampleApi'')
                    (awsLogs ''SampleApi-Logs'') [(80, TCP)]])
     \<and> members s ''SampleApiTargetGroup'' = replicas s ''ECSService''
     \<and> members s ''SampleApiCustomerTargetGroup'' = replicas s ''ECSService''
     \<and> map target (listenerRules s ''InternalHttpListener'') =
         [''SampleApiTargetGroup'', ''SampleApiCustomerTargetGroup'']"
  by (simp add: constructor_run lookup_def replicas_def members_def listenerRules_def upt_rec)

text \<open>The region with three zones.\<close>

theorem two_replicas_in_both_groups_witness:
  "\<exists>s. constructor (\<lambda>p. threeZones) (None :: unit option) = Inr s
     \<and> replicas s ''ECSService'' =
         [Replica ''ECSService'' 0 ''EcsTaskDefinition'',
          Replica ''ECSService'' 1 ''EcsTaskDefinition'']
     \<and> members s ''SampleApiTargetGroup'' = replicas s ''ECSService''
     \<and> members s ''SampleApiCustomerTargetGroup'' = replicas s ''ECSService''"
  using two_replicas_in_both_groups [of "\<lambda>p. threeZones" "None :: unit option"]
    threeZones_offered
  by auto

section \<open>The zone count\<close>

text \<open>
  Claim C8, as stated, fails. In the region that offers a single zone, fewer than the 2
  asked for, the network method does not fail: it returns a network whose subnets lie in
  that one zone, and the constructor completes with that network.
\<close>

theorem fewer_zones_without_failure:
  "length (availabilityZones singleZone) < 2
   \<and> setupVpc singleZone emptyStack =
       Inr \<lparr>vpc = Some ''VPC'', internalAlb = None, internalAlbListener = None,
            constructs =
              [(''VPC'', Vpc 2 0 ''10.0.0.0/16''
                          [Subnet PUBLIC ''local-1a'' ''10.0.0.0/17'',
                           Subnet PRIVATE_ISOLATED ''local-1a'' ''10.0.128.0/17''])],
            journal = [''VPC'']\<rparr>
   \<and> (\<exists>s. constructor (\<lambda>p. singleZone) (None :: unit option) = Inr s
          \<and> lookup s ''VPC'' =
              Some (Vpc 2 0 ''10.0.0.0/16''
                      [Subnet PUBLIC ''local-1a'' ''10.0.0.0/17'',
                       Subnet PRIVATE_ISOLATED ''local-1a'' ''10.0.128.0/17'']))
   \<and> \<not> (\<forall>env. length (availabilityZones env) < 2 \<longrightarrow> (\<exists>e. setupVpc env emptyStack = Inl e))"
proof -
  have layout: "layoutSubnets singleZone 2 0 =
      [Subnet PUBLIC ''local-1a'' ''10.0.0.0/17'',
       Subnet PRIVATE_ISOLATED ''local-1a'' ''10.0.128.0/17'']"
    by (simp add: layoutSubnets_def subnetGroups_def groupSubnets_def singleZone_def
        halfBlocks_def)
  have zones: "length (availabilityZones singleZone) < 2"
    by (simp add: singleZone_def)
  have run: "setupVpc singleZone emptyStack =
       Inr \<lparr>vpc = Some ''VPC'', internalAlb = None, internalAlbListener = None,
            constructs =
              [(''VPC'', Vpc 2 0 ''10.0.0.0/16''
                          [Subnet PUBLIC ''local-1a'' ''10.0.0.0/17'',
                           Subnet PRIVATE_ISOLATED ''local-1a'' ''10.0.128.0/17''])],
            journal = [''VPC'']\<rparr>"
    by (simp add: setupVpc_def newConstruct_def newVpc_def emptyStack_def layout
        defaultCidrRange_def)
  have "\<not> (\<exists>e. setupVpc singleZone emptyStack = Inl e)"
    by (simp add: run)
  with zones have neg:
    "\<not> (\<forall>env. length (availabilityZones env) < 2 \<longrightarrow> (\<exists>e. setupVpc env emptyStack = Inl e))"
    by blast
  have whole: "\<exists>s. constructor (\<lambda>p. singleZone) (None :: unit option) = Inr s
          \<and> lookup s ''VPC'' =
              Some (Vpc 2 0 ''10.0.0.0/16''
                      [Subnet PUBLIC ''local-1a'' ''10.0.0.0/17'',
                       Subnet PRIVATE_ISOLATED ''local-1a'' ''10.0.128.0/17''])"
    by (simp add: constructor_run [where env = singleZone] singleZone_offered lookup_def layout)
  from zones run whole neg show ?thesis by blast
qed

text \<open>
  Claim C8, amended. The zone count 2 is an upper bound, and asking for more zones than
  the environment offers is no failure of the network method: whatever the environment,
  the method succeeds, with zero NAT gateways, and the isolated and the public subnets
  each span the first 2 zones the environment offers, or all of them when it offers
  fewer.
\<close>

theorem zone_count_is_an_upper_bound:
  "\<exists>s sns. setupVpc env emptyStack = Inr s
     \<and> lookup s ''VPC'' = Some (Vpc 2 0 ''10.0.0.0/16'' sns)
     \<and> natGatewayCount s = 0
     \<and> map availabilityZone (subnetsOfType PRIVATE_ISOLATED sns) = take 2 (availabilityZones env)
     \<and> map availabilityZone (subnetsOfType PUBLIC sns) = take 2 (availabilityZones env)
     \<and> length (subnetsOfType PRIVATE_ISOLATED sns) = min (length (availabilityZones env)) 2"
  by (simp add: setupVpc_def newConstruct_def newVpc_def emptyStack_def defaultCidrRange_def
      lookup_def natGatewayCount_def isolated_layout public_layout zones_isolated
      length_groupSubnets)

section \<open>Configuration input\<close>




section \<open>Routing of a request\<close>

text \<open>In a list sorted by a key, the first element with a property has the least key.\<close>

lemma find_sorted_least:
  "sorted (map f xs) \<Longrightarrow> find P xs = Some x \<Longrightarrow>
     P x \<and> x \<in> set xs \<and> (\<forall>y\<in>set xs. P y \<longrightarrow> f x \<le> f y)"
proof (induction xs)
  case Nil
  then show ?case by simp
next
  case (Cons a xs)
  show ?case
  proof (cases "P a")
    case True
    with Cons.prems show ?thesis by auto
  next
    case False
    with Cons.prems have "find P xs = Some x" and "sorted (map f xs)" by simp_all
    with Cons.IH have "P x \<and> x \<in> set xs \<and> (\<forall>y\<in>set xs. P y \<longrightarrow> f x \<le> f y)" by blast
    with False show ?thesis by auto
  qed
qed

lemma evaluate_lowest_priority_wins:
  assumes r: "r \<in> set rs" and m: "ruleMatches matches p r"
    and low: "\<forall>r'\<in>set rs. priority r' < priority r \<longrightarrow> \<not> ruleMatches matches p r'"
    and uniq: "distinct (map priority rs)"
  shows "evaluate matches rs dflt p = forward (target r)"
proof -
  let ?xs = "sort_key priority rs"
  have "find (ruleMatches matches p) ?xs \<noteq> None"
    using r m by (auto simp: find_None_iff)
  then obtain x where x: "find (ruleMatches matches p) ?xs = Some x" by blast
  have "sorted (map priority ?xs)" by simp
  from find_sorted_least [OF this x]
  have px: "ruleMatches matches p x" and xin: "x \<in> set rs"
    and least: "\<forall>y\<in>set rs. ruleMatches matches p y \<longrightarrow> priority x \<le> priority y"
    by simp_all
  from least r m have "priority x \<le> priority r" by blast
  moreover from low xin px have "\<not> priority x < priority r" by blast
  ultimately have "priority x = priority r" by simp
  moreover from uniq have "inj_on priority (set rs)" by (simp add: distinct_map)
  ultimately have "x = r" using xin r by (auto dest: inj_onD)
  with x show ?thesis by (simp add: evaluate_def)
qed

lemma evaluate_no_match:
  "\<forall>r\<in>set rs. \<not> ruleMatches matches p r \<Longrightarrow> evaluate matches rs dflt p = dflt"
proof -
  assume "\<forall>r\<in>set rs. \<not> ruleMatches matches p r"
  then have "find (ruleMatches matches p) (sort_key priority rs) = None"
    by (simp add: find_None_iff)
  then show ?thesis by (simp add: evaluate_def)
qed

text \<open>
  Claim C2. Wherever the constructor completes, and whatever relation decides that a
  pattern matches a path: the priorities of the listener's rules are pairwise distinct, so
  no tie can occur; for every path and every rule of the listener, if the rule matches
  the path and no rule of strictly lower priority number matches it, the request is
  forwarded to that rule's target group; if no rule matches, the answer is the fixed
  response of status 200 with body ``No routes defined''. On the two rules built: a path
  that matches \<^verbatim>\<open>/customers\<close> and not \<^verbatim>\<open>/\<close> (the only rule of lower priority number)
  goes to group B; a path that matches \<^verbatim>\<open>/\<close> goes to group A; a path that matches
  neither gets the fixed response.
\<close>

theorem lowest_priority_rule_wins:
  "availabilityZones (super props) \<noteq> [] \<Longrightarrow>
   \<exists>s rs. constructor super props = Inr s
     \<and> internalAlbListener s = Some ''InternalHttpListener''
     \<and> listenerRules s ''InternalHttpListener'' = rs
     \<and> distinct (map priority rs)
     \<and> (\<forall>p. \<forall>r\<in>set rs.
            ruleMatches matches p r
            \<and> (\<forall>r'\<in>set rs. priority r' < priority r \<longrightarrow> \<not> ruleMatches matches p r')
            \<longrightarrow> route matches s p = Some (forward (target r)))
     \<and> (\<forall>p. (\<forall>r\<in>set rs. \<not> ruleMatches matches p r)
            \<longrightarrow> route matches s p = Some (fixedResponse 200 ''No routes defined''))
     \<and> (\<forall>p. matches ''/customers'' p \<and> \<not> matches ''/'' p
            \<longrightarrow> route matches s p = Some (forward ''SampleApiCustomerTargetGroup''))
     \<and> (\<forall>p. matches ''/'' p
            \<longrightarrow> route matches s p = Some (forward ''SampleApiTargetGroup''))
     \<and> (\<forall>p. \<not> matches ''/'' p \<and> \<not> matches ''/customers'' p
            \<longrightarrow> route matches s p = Some (fixedResponse 200 ''No routes defined''))"
proof -
  assume zones: "availabilityZones (super props) \<noteq> []"
  let ?rs = "[ListenerRule 1 [''/''] ''SampleApiTargetGroup'' ''/'',
              ListenerRule 2 [''/customers''] ''SampleApiCustomerTargetGroup'' ''/'']"
  let ?d = "fixedResponse 200 ''No routes defined''"
  from zones obtain s where run: "constructor super props = Inr s"
    and fld: "internalAlbListener s = Some ''InternalHttpListener''"
    and lst: "lookup s ''InternalHttpListener'' =
                Some (ApplicationListener ''InternalAlb'' 80 (Some ?d) ?rs)"
    by (simp add: constructor_run lookup_def)
  have rules: "listenerRules s ''InternalHttpListener'' = ?rs"
    by (simp add: listenerRules_def lst)
  have route: "\<And>p. route matches s p = Some (evaluate matches ?rs ?d p)"
    by (simp add: route_def fld lst)
  have uniq: "distinct (map priority ?rs)" by simp
  have wins: "\<forall>p. \<forall>r\<in>set ?rs.
            ruleMatches matches p r
            \<and> (\<forall>r'\<in>set ?rs. priority r' < priority r \<longrightarrow> \<not> ruleMatches matches p r')
            \<longrightarrow> route matches s p = Some (forward (target r))"
    unfolding route using evaluate_lowest_priority_wins [OF _ _ _ uniq] by blast
  have none: "\<forall>p. (\<forall>r\<in>set ?rs. \<not> ruleMatches matches p r)
            \<longrightarrow> route matches s p = Some ?d"
    unfolding route using evaluate_no_match by blast
  have b: "\<forall>p. matches ''/customers'' p \<and> \<not> matches ''/'' p
            \<longrightarrow> route matches s p = Some (forward ''SampleApiCustomerTargetGroup'')"
    by (simp add: route evaluate_def ruleMatches_def)
  have a: "\<forall>p. matches ''/'' p \<longrightarrow> route matches s p = Some (forward ''SampleApiTargetGroup'')"
    by (simp add: route evaluate_def ruleMatches_def)
  have d: "\<forall>p. \<not> matches ''/'' p \<and> \<not> matches ''/customers'' p
            \<longrightarrow> route matches s p = Some ?d"
    by (simp add: route evaluate_def ruleMatches_def)
  from run fld rules uniq wins none b a d show ?thesis
    by (intro exI [of _ s] exI [of _ ?rs] conjI)
qed

text \<open>
  With matching by equality, \<^verbatim>\<open>/customers\<close> goes to group B, \<^verbatim>\<open>/\<close> to group A and
  \<^verbatim>\<open>/orders\<close> gets the fixed response. With matching by prefix, \<^verbatim>\<open>/customers\<close> also
  matches the pattern \<^verbatim>\<open>/\<close> of priority 1 and goes to group A.
\<close>

theorem lowest_priority_rule_wins_witness:
  "\<exists>s. constructor (\<lambda>p. threeZones) (None :: unit option) = Inr s
     \<and> route exactMatch s ''/customers'' = Some (forward ''SampleApiCustomerTargetGroup'')
     \<and> route exactMatch s ''/'' = Some (forward ''SampleApiTargetGroup'')
     \<and> route exactMatch s ''/orders'' = Some (fixedResponse 200 ''No routes defined'')
     \<and> route prefixMatch s ''/customers'' = Some (forward ''SampleApiTargetGroup'')"
proof -
  from lowest_priority_rule_wins [of "\<lambda>p. threeZones" "None :: unit option" exactMatch]
    threeZones_offered
  obtain s where run: "constructor (\<lambda>p. threeZones) (None :: unit option) = Inr s"
    and b: "\<forall>p. exactMatch ''/customers'' p \<and> \<not> exactMatch ''/'' p
            \<longrightarrow> route exactMatch s p = Some (forward ''SampleApiCustomerTargetGroup'')"
    and a: "\<forall>p. exactMatch ''/'' p
            \<longrightarrow> route exactMatch s p = Some (forward ''SampleApiTargetGroup'')"
    and d: "\<forall>p. \<not> exactMatch ''/'' p \<and> \<not> exactMatch ''/customers'' p
            \<longrightarrow> route exactMatch s p = Some (fixedResponse 200 ''No routes defined'')"
    by blast
  from lowest_priority_rule_wins [of "\<lambda>p. threeZones" "None :: unit option" prefixMatch]
    threeZones_offered run
  have a': "\<forall>p. prefixMatch ''/'' p
            \<longrightarrow> route prefixMatch s p = Some (forward ''SampleApiTargetGroup'')"
    by auto
  have "route exactMatch s ''/customers'' = Some (forward ''SampleApiCustomerTargetGroup'')"
    using b by (simp add: exactMatch_def)
  moreover have "route exactMatch s ''/'' = Some (forward ''SampleApiTargetGroup'')"
    using a by (simp add: exactMatch_def)
  moreover have "route exactMatch s ''/orders'' = Some (fixedResponse 200 ''No routes defined'')"
    using d by (simp add: exactMatch_def)
  moreover have "route prefixMatch s ''/customers'' = Some (forward ''SampleApiTargetGroup'')"
    using a' by (simp add: prefixMatch_def)
  ultimately show ?thesis using run by blast
qed


section \<open>Priorities of the rules\<close>

text \<open>Reading the store after a construct was changed or created.\<close>

lemma lookup_modify:
  "lookup (modify i f s) l = (if l = i then map_option f (lookup s l) else lookup s l)"
proof -
  have "map_of (map (\<lambda>(k, c). if k = i then (k, f c) else (k, c)) xs) l =
          (if l = i then map_option f (map_of xs l) else map_of xs l)" for xs
    by (induction xs) auto
  then show ?thesis by (simp add: lookup_def modify_def)
qed

lemma lookup_newConstruct:
  "lookup s l = Some c \<Longrightarrow> lookup (newConstruct i k s) l = Some c"
  by (simp add: lookup_def newConstruct_def map_add_Some_iff)

lemma addRule_duplicate:
  "lookup s l = Some (ApplicationListener lb p d rs) \<Longrightarrow> pr \<in> set (map priority rs) \<Longrightarrow>
     addRule l pr pats tg hc s = Inl (DuplicatePriority pr)"
  by (simp add: addRule_def)

lemma addRule_fresh:
  "lookup s l = Some (ApplicationListener lb p d rs) \<Longrightarrow> pr \<notin> set (map priority rs) \<Longrightarrow>
     \<exists>s'. addRule l pr pats tg hc s = Inr s'
        \<and> lookup s' l = Some (ApplicationListener lb p d (rs @ [ListenerRule pr pats tg hc]))"
  by (simp add: addRule_def lookup_modify)

lemma registerTarget_cases:
  assumes l: "lookup s l = Some (ApplicationListener lb p d rs)" and t: "listenerOf t = l"
  shows "(priorityOf t \<in> set (map priority rs)
            \<and> registerTarget svc t s = Inl (DuplicatePriority (priorityOf t)))
       \<or> (priorityOf t \<notin> set (map priority rs)
            \<and> (\<exists>s' r. registerTarget svc t s = Inr s' \<and> priority r = priorityOf t
                  \<and> lookup s' l = Some (ApplicationListener lb p d (rs @ [r]))))"
proof -
  obtain cn tg l' proto pr hc conds
    where teq: "t = EcsTarget cn tg (applicationListener l' (AddApplicationTargetsProps proto pr hc conds))"
    by (metis EcsTarget.exhaust ListenerConfig.exhaust AddApplicationTargetsProps.exhaust)
  with t have l': "l' = l" by simp
  let ?s1 = "newConstruct tg (ApplicationTargetGroup proto hc [(svc, cn)]) s"
  have l1: "lookup ?s1 l = Some (ApplicationListener lb p d rs)"
    using l by (rule lookup_newConstruct)
  show ?thesis
  proof (cases "pr \<in> set (map priority rs)")
    case True
    with addRule_duplicate [OF l1 True] show ?thesis by (simp add: teq l')
  next
    case False
    from addRule_fresh [OF l1 False, of "patternsOf conds" tg hc]
    obtain s' where "addRule l pr (patternsOf conds) tg hc ?s1 = Inr s'"
      and "lookup s' l =
             Some (ApplicationListener lb p d (rs @ [ListenerRule pr (patternsOf conds) tg hc]))"
      by blast
    with False show ?thesis by (auto simp: teq l')
  qed
qed

lemma registerLoadBalancerTargets_duplicate:
  "lookup s l = Some (ApplicationListener lb p d rs) \<Longrightarrow>
   list_all (\<lambda>t. listenerOf t = l) ts \<Longrightarrow>
   distinct (map priority rs) \<Longrightarrow>
   \<not> distinct (map priority rs @ map priorityOf ts) \<Longrightarrow>
   \<exists>pr. registerLoadBalancerTargets svc ts s = Inl (DuplicatePriority pr)"
proof (induction ts arbitrary: s rs)
  case Nil
  then show ?case by simp
next
  case (Cons t ts)
  from Cons.prems(2) have t: "listenerOf t = l" and ts: "list_all (\<lambda>t. listenerOf t = l) ts"
    by simp_all
  from registerTarget_cases [OF Cons.prems(1) t, of svc]
  show ?case
  proof (elim disjE conjE exE)
    assume "registerTarget svc t s = Inl (DuplicatePriority (priorityOf t))"
    then show ?thesis by (simp add: andThen_def)
  next
    fix s' r
    assume fresh: "priorityOf t \<notin> set (map priority rs)"
      and reg: "registerTarget svc t s = Inr s'"
      and pr: "priority r = priorityOf t"
      and l': "lookup s' l = Some (ApplicationListener lb p d (rs @ [r]))"
    have d': "distinct (map priority (rs @ [r]))"
      using Cons.prems(3) fresh pr by simp
    have nd': "\<not> distinct (map priority (rs @ [r]) @ map priorityOf ts)"
      using Cons.prems(4) pr by auto
    from Cons.IH [OF l' ts d' nd']
    show ?thesis by (simp add: reg andThen_def)
  qed
qed


text \<open>
  Claim C4. Wherever the constructor completes, the rules it declares have the
  priorities 1 and 2, pairwise distinct. Adding a rule whose priority is already taken on
  the listener fails with the duplicate-priority error. Registering any list of targets
  with one listener fails with that error as soon as the priorities asked for, together
  with those already on the listener, are not pairwise distinct: the construction is
  aborted with an error and returns no stack, so no topology is handed on.
\<close>

theorem duplicate_priority_rejected:
  "(availabilityZones (super props) \<noteq> [] \<longrightarrow>
      (\<exists>s. constructor super props = Inr s
         \<and> map priority (listenerRules s ''InternalHttpListener'') = [1, 2]
         \<and> distinct (map priority (listenerRules s ''InternalHttpListener''))))
   \<and> (lookup s0 l = Some (ApplicationListener lb p d rs) \<and> pr \<in> set (map priority rs)
        \<longrightarrow> addRule l pr pats tg hc s0 = Inl (DuplicatePriority pr))
   \<and> (lookup s0 l = Some (ApplicationListener lb p d rs)
        \<and> list_all (\<lambda>t. listenerOf t = l) ts
        \<and> distinct (map priority rs)
        \<and> \<not> distinct (map priority rs @ map priorityOf ts)
        \<longrightarrow> (\<exists>dup. registerLoadBalancerTargets svc ts s0 = Inl (DuplicatePriority dup)))"
proof (intro conjI impI)
  assume "availabilityZones (super props) \<noteq> []"
  then show "\<exists>s. constructor super props = Inr s
         \<and> map priority (listenerRules s ''InternalHttpListener'') = [1, 2]
         \<and> distinct (map priority (listenerRules s ''InternalHttpListener''))"
    by (simp add: constructor_run lookup_def listenerRules_def)
next
  assume "lookup s0 l = Some (ApplicationListener lb p d rs) \<and> pr \<in> set (map priority rs)"
  then show "addRule l pr pats tg hc s0 = Inl (DuplicatePriority pr)"
    by (simp add: addRule_duplicate)
next
  assume "lookup s0 l = Some (ApplicationListener lb p d rs)
        \<and> list_all (\<lambda>t. listenerOf t = l) ts
        \<and> distinct (map priority rs)
        \<and> \<not> distinct (map priority rs @ map priorityOf ts)"
  then show "\<exists>dup. registerLoadBalancerTargets svc ts s0 = Inl (DuplicatePriority dup)"
    using registerLoadBalancerTargets_duplicate by blast
qed

text \<open>
  On a listener without rules, the two targets of the source with the second priority
  changed from 2 to 1: the first registration succeeds, the second rule is refused, and
  the registration of the pair returns the error.
\<close>

theorem duplicate_priority_rejected_witness:
  "(\<exists>s. constructor (\<lambda>p. threeZones) (None :: unit option) = Inr s
        \<and> map priority (listenerRules s ''InternalHttpListener'') = [1, 2])
   \<and> lookup bareListener ''InternalHttpListener'' = Some (ApplicationListener ''InternalAlb'' 80 None [])
   \<and> registerLoadBalancerTargets ''ECSService''
       [EcsTarget ''SampleApi'' ''SampleApiTargetGroup''
          (applicationListener ''InternalHttpListener''
             (AddApplicationTargetsProps HTTP 1 ''/'' [pathPatterns [''/'']])),
        EcsTarget ''SampleApi'' ''SampleApiCustomerTargetGroup''
          (applicationListener ''InternalHttpListener''
             (AddApplicationTargetsProps HTTP 1 ''/'' [pathPatterns [''/customers'']]))]
       bareListener = Inl (DuplicatePriority 1)
   \<and> (\<exists>s. registerTarget ''ECSService''
          (EcsTarget ''SampleApi'' ''SampleApiTargetGroup''
             (applicationListener ''InternalHttpListener''
                (AddApplicationTargetsProps HTTP 1 ''/'' [pathPatterns [''/'']])))
          bareListener = Inr s
        \<and> addRule ''InternalHttpListener'' 1 [''/customers''] ''SampleApiCustomerTargetGroup'' ''/'' s
            = Inl (DuplicatePriority 1))"
proof -
  let ?t1 = "EcsTarget ''SampleApi'' ''SampleApiTargetGroup''
          (applicationListener ''InternalHttpListener''
             (AddApplicationTargetsProps HTTP 1 ''/'' [pathPatterns [''/'']]))"
  let ?t2 = "EcsTarget ''SampleApi'' ''SampleApiCustomerTargetGroup''
          (applicationListener ''InternalHttpListener''
             (AddApplicationTargetsProps HTTP 1 ''/'' [pathPatterns [''/customers'']]))"
  have l0: "lookup bareListener ''InternalHttpListener'' =
              Some (ApplicationListener ''InternalAlb'' 80 None [])"
    by (simp add: bareListener_def addListener_def newConstruct_def emptyStack_def lookup_def)
  have pre: "list_all (\<lambda>t. listenerOf t = ''InternalHttpListener'') [?t1, ?t2]
        \<and> distinct (map priority ([] :: ListenerRule list))
        \<and> \<not> distinct (map priority ([] :: ListenerRule list) @ map priorityOf [?t1, ?t2])"
    by simp
  note inst = duplicate_priority_rejected
    [of "\<lambda>p. threeZones" "None :: unit option" bareListener "''InternalHttpListener''"
        "''InternalAlb''" 80 None "[]" 1 "[]" "''x''" "''/''" "[?t1, ?t2]" "''ECSService''"]
  from inst threeZones_offered
  have built: "\<exists>s. constructor (\<lambda>p. threeZones) (None :: unit option) = Inr s
        \<and> map priority (listenerRules s ''InternalHttpListener'') = [1, 2]"
    by auto
  from inst l0 pre
  obtain dup where
    "registerLoadBalancerTargets ''ECSService'' [?t1, ?t2] bareListener = Inl (DuplicatePriority dup)"
    by blast
  moreover have run2: "registerLoadBalancerTargets ''ECSService'' [?t1, ?t2] bareListener =
      Inl (DuplicatePriority 1)"
    by (simp add: bareListener_def addListener_def newConstruct_def emptyStack_def lookup_def
        addRule_def modify_def andThen_def)
  moreover have "\<exists>s. registerTarget ''ECSService'' ?t1 bareListener = Inr s
        \<and> addRule ''InternalHttpListener'' 1 [''/customers''] ''SampleApiCustomerTargetGroup'' ''/'' s
            = Inl (DuplicatePriority 1)"
    by (simp add: bareListener_def addListener_def newConstruct_def emptyStack_def lookup_def
        addRule_def modify_def)
  ultimately show ?thesis using l0 built by simp
qed

end
